theory Spec2Isabelle
  imports Complex_Main
begin

section \<open>Python values and errors\<close>

text \<open>
  Python floats are modelled as real numbers, Python ints as \<open>int\<close>.  The only
  exception the simulation core can raise is \<open>ZeroDivisionError\<close>, from a true
  division or a modulo whose right operand is zero; both operations return a sum
  whose left injection is the error.
\<close>

datatype error = ZeroDivisionError

definition py_div :: "real \<Rightarrow> real \<Rightarrow> error + real" where
  "py_div a b = (if b = 0 then Inl ZeroDivisionError else Inr (a / b))"

definition py_mod :: "int \<Rightarrow> int \<Rightarrow> error + int" where
  "py_mod a b = (if b = 0 then Inl ZeroDivisionError else Inr (a mod b))"

text \<open>\<open>float('inf')\<close> is needed for the runway of an entity that burns nothing.\<close>

datatype pyfloat = Finite real | PosInf

fun pyfloat_less :: "pyfloat \<Rightarrow> real \<Rightarrow> bool" where
  "pyfloat_less (Finite x) t = (x < t)"
| "pyfloat_less PosInf t = False"

definition np_clip :: "real \<Rightarrow> real \<Rightarrow> real \<Rightarrow> real" where
  "np_clip x lo hi = min (max x lo) hi"

definition np_mean :: "real list \<Rightarrow> real" where
  "np_mean xs = sum_list xs / real (length xs)"

section \<open>The random generator\<close>

text \<open>
  All draws go through the process-wide generator of \<open>numpy.random\<close>, which is
  not part of the repository.  Its state type \<open>'g\<close>, the state that a seed
  produces, and the four sampling functions the code calls are parameters: each
  sampler takes the generator state and returns the sample with the next state.
\<close>

record 'g numpy_random =
  np_seed :: "int \<Rightarrow> 'g"
  np_random :: "'g \<Rightarrow> real \<times> 'g"
  np_uniform :: "real \<Rightarrow> real \<Rightarrow> 'g \<Rightarrow> real \<times> 'g"
  np_normal :: "real \<Rightarrow> real \<Rightarrow> 'g \<Rightarrow> real \<times> 'g"
  np_beta :: "real \<Rightarrow> real \<Rightarrow> 'g \<Rightarrow> real \<times> 'g"

section \<open>config.py\<close>

record config =
  K0_MIN :: real
  K0_MAX :: real
  B0_MIN_RATIO :: real
  B0_MAX_RATIO :: real
  R0_INITIAL :: real
  PMF_ALPHA :: real
  PMF_BETA :: real
  GAMMA :: real
  EPSILON_PRICE :: real
  BASE_PRICE :: real
  SIGMA_R :: real
  DELTA_GROWTH :: real
  DELTA_CUT :: real
  RUNWAY_LOW_THRESHOLD :: real
  ETA :: real
  SIGMA_PMF :: real
  LAMBDA_1 :: real
  LAMBDA_2 :: real
  LAMBDA_3 :: real
  FUNDING_INTERVAL :: int
  ALPHA_REVENUE_BURN :: real
  PMF_MIN :: real
  BETA_1 :: real
  BETA_2 :: real
  BETA_3 :: real
  KAPPA :: real
  M0_INITIAL :: real
  GROWTH_RATE_M :: real
  POLICY_INTERVAL :: int
  C_REG :: real
  S_G :: real
  TAU :: real
  P_SHOCK :: real
  DELTA_PMF_SHOCK_MIN :: real
  DELTA_PMF_SHOCK_MAX :: real
  DELTA_M_SHOCK_MIN :: real
  DELTA_M_SHOCK_MAX :: real
  Q_T :: real

text \<open>The values of the module as shipped.\<close>

definition default_config :: config where
  "default_config = \<lparr>
     K0_MIN = 2000000, K0_MAX = 20000000,
     B0_MIN_RATIO = 5 / 100, B0_MAX_RATIO = 15 / 100,
     R0_INITIAL = 0,
     PMF_ALPHA = 2, PMF_BETA = 5,
     GAMMA = 2, EPSILON_PRICE = 1 / 100, BASE_PRICE = 100,
     SIGMA_R = 10000,
     DELTA_GROWTH = 2 / 10, DELTA_CUT = 15 / 100, RUNWAY_LOW_THRESHOLD = 3,
     ETA = 1 / 100, SIGMA_PMF = 2 / 100,
     LAMBDA_1 = 10, LAMBDA_2 = 10000000, LAMBDA_3 = 2,
     FUNDING_INTERVAL = 6, ALPHA_REVENUE_BURN = 3 / 10, PMF_MIN = 3 / 10,
     BETA_1 = 5, BETA_2 = 1 / 2, BETA_3 = 2,
     KAPPA = 25 / 100,
     M0_INITIAL = 100000000, GROWTH_RATE_M = 5 / 100,
     POLICY_INTERVAL = 12, C_REG = 50000, S_G = 30000, TAU = 18 / 100,
     P_SHOCK = 5 / 100,
     DELTA_PMF_SHOCK_MIN = - (1 / 10), DELTA_PMF_SHOCK_MAX = 15 / 100,
     DELTA_M_SHOCK_MIN = - (5 / 100), DELTA_M_SHOCK_MAX = 1 / 10,
     Q_T = 10 \<rparr>"

section \<open>startup\_agent.py\<close>

text \<open>
  The state of one \<open>StartupAgent\<close>.  \<open>S\<close> is the integer the code stores
  (1 alive, 0 dead); \<open>death_time\<close> is \<open>None\<close> while the attribute does not exist.
\<close>

record agent =
  K :: real
  B :: real
  R :: real
  PMF :: real
  V :: real
  S :: int
  just_funded :: bool
  funding_received :: real
  runway :: pyfloat
  death_time :: "int option"

definition StartupAgent_init :: "'g numpy_random \<Rightarrow> config \<Rightarrow> 'g \<Rightarrow> error + (agent \<times> 'g)" where
  "StartupAgent_init np cfg g0 =
     (let (k, g1) = np_uniform np (K0_MIN cfg) (K0_MAX cfg) g0;
          (b, g2) = np_uniform np (B0_MIN_RATIO cfg * k) (B0_MAX_RATIO cfg * k) g1;
          (p, g3) = np_beta np (PMF_ALPHA cfg) (PMF_BETA cfg) g2
      in case (if b > 0 then map_sum id Finite (py_div k b) else Inr PosInf) of
           Inl e \<Rightarrow> Inl e
         | Inr rw \<Rightarrow>
             Inr (\<lparr> K = k, B = b, R = R0_INITIAL cfg, PMF = p, V = LAMBDA_3 cfg * k,
                    S = 1, just_funded = False, funding_received = 0,
                    runway = rw, death_time = None \<rparr>, g3))"

text \<open>Stage 3.  \<open>M_t\<close> and \<open>theta_t\<close> are read from the model.\<close>

definition stage_consumer_adoption ::
  "'g numpy_random \<Rightarrow> config \<Rightarrow> real \<Rightarrow> real \<Rightarrow> agent \<Rightarrow> 'g \<Rightarrow> agent \<times> 'g" where
  "stage_consumer_adoption np cfg M_t theta_t a g =
     (if S a = 0 then (a\<lparr>R := 0\<rparr>, g)
      else
        let exponent = - GAMMA cfg * (PMF a - EPSILON_PRICE cfg * BASE_PRICE cfg);
            p_a = 1 / (1 + exp exponent);
            q_t = Q_T cfg;
            R_bar = M_t * p_a * q_t * (1 - theta_t);
            (epsilon_r, g') = np_normal np 0 (SIGMA_R cfg) g
        in (a\<lparr>R := max 0 (R_bar + epsilon_r)\<rparr>, g'))"

text \<open>Stage 4.\<close>

definition stage_internal_dynamics :: "config \<Rightarrow> agent \<Rightarrow> agent" where
  "stage_internal_dynamics cfg a =
     (if S a = 0 then a
      else if just_funded a then
        a\<lparr>B := B a * (1 + DELTA_GROWTH cfg), just_funded := False\<rparr>
      else if pyfloat_less (runway a) (RUNWAY_LOW_THRESHOLD cfg) \<and> B a > 0 then
        a\<lparr>B := B a * (1 - DELTA_CUT cfg)\<rparr>
      else a)"

text \<open>Stage 5.  \<open>steps\<close> is \<open>self.model.schedule.steps\<close>.\<close>

definition stage_capital_update :: "int \<Rightarrow> agent \<Rightarrow> error + agent" where
  "stage_capital_update steps a =
     (if S a = 0 then Inr a
      else
        let F_t = funding_received a;
            a1 = a\<lparr>K := K a + R a - B a + F_t\<rparr>;
            a2 = a1\<lparr>funding_received := 0\<rparr>;
            a3 = (if K a2 \<le> 0 then a2\<lparr>S := 0, K := 0, death_time := Some steps\<rparr> else a2)
        in if S a3 = 1 \<and> B a3 > 0 then
             (case py_div (K a3) (B a3) of
                Inl e \<Rightarrow> Inl e
              | Inr q \<Rightarrow> Inr (a3\<lparr>runway := Finite q\<rparr>))
           else Inr (a3\<lparr>runway := (if S a3 = 0 then Finite 0 else PosInf)\<rparr>))"

text \<open>Stage 6.\<close>

definition stage_pmf_valuation_update ::
  "'g numpy_random \<Rightarrow> config \<Rightarrow> agent \<Rightarrow> 'g \<Rightarrow> agent \<times> 'g" where
  "stage_pmf_valuation_update np cfg a g =
     (if S a = 0 then (a, g)
      else
        let (epsilon_p, g') = np_normal np 0 (SIGMA_PMF cfg) g;
            a1 = a\<lparr>PMF := PMF a + ETA cfg * ln (1 + R a) + epsilon_p\<rparr>;
            a2 = a1\<lparr>PMF := np_clip (PMF a1) 0 1\<rparr>
        in (a2\<lparr>V := LAMBDA_1 cfg * R a2 + LAMBDA_2 cfg * PMF a2 + LAMBDA_3 cfg * K a2\<rparr>, g'))"

text \<open>
  Stage 7.  The part of the method below its two early returns is the investor logic
  proper; it is a definition of its own so that the gate in front of it can be
  stated, and so is the expression that the method binds to \<open>revenue_burn_ratio\<close>.
\<close>

definition revenue_burn_ratio :: "agent \<Rightarrow> error + real" where
  "revenue_burn_ratio a = (if B a > 0 then py_div (R a) (B a) else Inr 0)"

definition investor_logic ::
  "'g numpy_random \<Rightarrow> config \<Rightarrow> real \<Rightarrow> agent \<Rightarrow> 'g \<Rightarrow> error + (agent \<times> 'g)" where
  "investor_logic np cfg theta_t a g =
     (case revenue_burn_ratio a of
        Inl e \<Rightarrow> Inl e
      | Inr ratio \<Rightarrow>
          let is_eligible = (ratio \<ge> ALPHA_REVENUE_BURN cfg \<and> PMF a \<ge> PMF_MIN cfg)
          in if \<not> is_eligible then Inr (a\<lparr>funding_received := 0\<rparr>, g)
             else
               let z = BETA_1 cfg * PMF a + BETA_2 cfg * ln (R a + 1) - BETA_3 cfg * theta_t;
                   p_fund = 1 / (1 + exp (- z));
                   (u, g') = np_random np g
               in if u < p_fund then
                    Inr (a\<lparr>funding_received := KAPPA cfg * V a, just_funded := True\<rparr>, g')
                  else Inr (a\<lparr>funding_received := 0\<rparr>, g'))"

definition stage_funding ::
  "'g numpy_random \<Rightarrow> config \<Rightarrow> int \<Rightarrow> real \<Rightarrow> agent \<Rightarrow> 'g \<Rightarrow> error + (agent \<times> 'g)" where
  "stage_funding np cfg steps theta_t a g =
     (if S a = 0 then Inr (a\<lparr>funding_received := 0\<rparr>, g)
      else
        case py_mod steps (FUNDING_INTERVAL cfg) of
          Inl e \<Rightarrow> Inl e
        | Inr r \<Rightarrow>
            if r \<noteq> 0 then Inr (a\<lparr>funding_received := 0\<rparr>, g)
            else investor_logic np cfg theta_t a g)"

text \<open>Stage 8.\<close>

definition stage_policy :: "config \<Rightarrow> int \<Rightarrow> agent \<Rightarrow> error + agent" where
  "stage_policy cfg steps a =
     (if S a = 0 then Inr a
      else
        case py_mod steps (POLICY_INTERVAL cfg) of
          Inl e \<Rightarrow> Inl e
        | Inr r \<Rightarrow>
            if r \<noteq> 0 then Inr a
            else
              let policy_impact = C_REG cfg - S_G cfg + TAU cfg * R a;
                  a1 = a\<lparr>B := B a + policy_impact\<rparr>
              in Inr (a1\<lparr>B := max 0 (B a1)\<rparr>))"

section \<open>startup\_model.py\<close>

text \<open>
  One row of the model-level reporters and one record of the agent-level reporters of
  the data collector.  The collector itself belongs to the Mesa library: every call
  of \<open>collect\<close> appends one row of model variables and stores one record per agent
  of the schedule.
\<close>

record model_row =
  Alive_Startups :: nat
  Dead_Startups :: nat
  Failure_Rate :: real
  Total_Funding :: real
  Avg_Valuation :: real
  Avg_PMF :: real
  Avg_Revenue :: real
  Market_Size :: real
  Competition_Index :: real

type_synonym agent_row = "real \<times> real \<times> real \<times> real \<times> real \<times> int \<times> real \<times> int option"

definition agent_reporters :: "agent \<Rightarrow> agent_row" where
  "agent_reporters a = (K a, B a, R a, PMF a, V a, S a, funding_received a, death_time a)"

text \<open>
  The model together with its scheduler (\<open>agents\<close>, \<open>steps\<close>, \<open>time\<close>), the
  state of the global generator and the two tables of the data collector.
\<close>

record 'g model =
  agents :: "agent list"
  steps :: int
  time :: int
  market_size :: real
  initial_startups :: int
  competition_index :: real
  rng :: 'g
  model_vars :: "model_row list"
  agent_records :: "agent_row list list"

fun create_agents :: "'g numpy_random \<Rightarrow> config \<Rightarrow> nat \<Rightarrow> 'g \<Rightarrow> error + (agent list \<times> 'g)" where
  "create_agents np cfg 0 g = Inr ([], g)"
| "create_agents np cfg (Suc n) g =
     (case StartupAgent_init np cfg g of
        Inl e \<Rightarrow> Inl e
      | Inr (a, g') \<Rightarrow>
          (case create_agents np cfg n g' of
             Inl e \<Rightarrow> Inl e
           | Inr (as, g'') \<Rightarrow> Inr (a # as, g'')))"

text \<open>
  \<open>StartupModel.__init__\<close>.  \<open>ambient\<close> is the state the global generator is in
  when the constructor is called; it is used as it is when no seed is given.
\<close>

definition StartupModel_init ::
  "'g numpy_random \<Rightarrow> config \<Rightarrow> int \<Rightarrow> int option \<Rightarrow> 'g \<Rightarrow> error + 'g model" where
  "StartupModel_init np cfg num_startups seed ambient =
     (let g0 = (case seed of None \<Rightarrow> ambient | Some s \<Rightarrow> np_seed np s)
      in case create_agents np cfg (nat num_startups) g0 of
           Inl e \<Rightarrow> Inl e
         | Inr (as, g1) \<Rightarrow>
             Inr \<lparr> agents = as, steps = 0, time = 0,
                   market_size = M0_INITIAL cfg, initial_startups = num_startups,
                   competition_index = 0, rng = g1,
                   model_vars = [], agent_records = [] \<rparr>)"

fun shock_agents :: "real \<Rightarrow> agent list \<Rightarrow> agent list" where
  "shock_agents delta_pmf [] = []"
| "shock_agents delta_pmf (a # as) =
     (if S a = 1 then a\<lparr>PMF := np_clip (PMF a + delta_pmf) 0 1\<rparr> else a)
       # shock_agents delta_pmf as"

definition apply_shocks :: "'g numpy_random \<Rightarrow> config \<Rightarrow> 'g model \<Rightarrow> 'g model" where
  "apply_shocks np cfg m =
     (let (u, g1) = np_random np (rng m)
      in if u < P_SHOCK cfg then
           let (delta_pmf, g2) =
                 np_uniform np (DELTA_PMF_SHOCK_MIN cfg) (DELTA_PMF_SHOCK_MAX cfg) g1;
               (delta_m, g3) =
                 np_uniform np (DELTA_M_SHOCK_MIN cfg) (DELTA_M_SHOCK_MAX cfg) g2;
               m1 = m\<lparr>agents := shock_agents delta_pmf (agents m), rng := g3\<rparr>;
               m2 = m1\<lparr>market_size := market_size m1 * (1 + delta_m)\<rparr>
           in m2\<lparr>market_size := max 0 (market_size m2)\<rparr>
         else m\<lparr>rng := g1\<rparr>)"

definition update_market :: "config \<Rightarrow> 'g model \<Rightarrow> error + 'g model" where
  "update_market cfg m =
     (let m1 = m\<lparr>market_size := market_size m * (1 + GROWTH_RATE_M cfg)\<rparr>;
          active_startups = length (filter (\<lambda>a. S a = 1) (agents m1))
      in case py_div (real active_startups) (real_of_int (initial_startups m1)) of
           Inl e \<Rightarrow> Inl e
         | Inr th \<Rightarrow> Inr (m1\<lparr>competition_index := th\<rparr>))"

text \<open>
  The scheduler looks the stage methods up by name; the names are a datatype here and
  \<open>call_stage\<close> is the lookup followed by the call.
\<close>

datatype stage =
    Stage_shock
  | Stage_market_update
  | Stage_consumer_adoption
  | Stage_internal_dynamics
  | Stage_capital_update
  | Stage_pmf_valuation_update
  | Stage_funding
  | Stage_policy

definition stage_list :: "stage list" where
  "stage_list = [Stage_shock, Stage_market_update, Stage_consumer_adoption,
                 Stage_internal_dynamics, Stage_capital_update,
                 Stage_pmf_valuation_update, Stage_funding, Stage_policy]"

fun call_stage ::
  "'g numpy_random \<Rightarrow> config \<Rightarrow> 'g model \<Rightarrow> stage \<Rightarrow> agent \<Rightarrow> 'g \<Rightarrow> error + (agent \<times> 'g)" where
  "call_stage np cfg m Stage_shock a g = Inr (a, g)"
| "call_stage np cfg m Stage_market_update a g = Inr (a, g)"
| "call_stage np cfg m Stage_consumer_adoption a g =
     Inr (stage_consumer_adoption np cfg (market_size m) (competition_index m) a g)"
| "call_stage np cfg m Stage_internal_dynamics a g = Inr (stage_internal_dynamics cfg a, g)"
| "call_stage np cfg m Stage_capital_update a g =
     map_sum id (\<lambda>a'. (a', g)) (stage_capital_update (steps m) a)"
| "call_stage np cfg m Stage_pmf_valuation_update a g =
     Inr (stage_pmf_valuation_update np cfg a g)"
| "call_stage np cfg m Stage_funding a g =
     stage_funding np cfg (steps m) (competition_index m) a g"
| "call_stage np cfg m Stage_policy a g =
     map_sum id (\<lambda>a'. (a', g)) (stage_policy cfg (steps m) a)"

text \<open>The inner loop \<open>for agent in self.agents\<close>, threading the generator.\<close>

fun for_agents ::
  "(agent \<Rightarrow> 'g \<Rightarrow> error + (agent \<times> 'g)) \<Rightarrow> agent list \<Rightarrow> 'g \<Rightarrow> error + (agent list \<times> 'g)" where
  "for_agents f [] g = Inr ([], g)"
| "for_agents f (a # as) g =
     (case f a g of
        Inl e \<Rightarrow> Inl e
      | Inr (a', g') \<Rightarrow>
          (case for_agents f as g' of
             Inl e \<Rightarrow> Inl e
           | Inr (as', g'') \<Rightarrow> Inr (a' # as', g'')))"

text \<open>The outer loop \<open>for stage in ...\<close>.\<close>

fun run_stages ::
  "'g numpy_random \<Rightarrow> config \<Rightarrow> stage list \<Rightarrow> 'g model \<Rightarrow> error + 'g model" where
  "run_stages np cfg [] m = Inr m"
| "run_stages np cfg (st # sts) m =
     (case for_agents (call_stage np cfg m st) (agents m) (rng m) of
        Inl e \<Rightarrow> Inl e
      | Inr (as, g) \<Rightarrow> run_stages np cfg sts (m\<lparr>agents := as, rng := g\<rparr>))"

definition StagedActivation_step ::
  "'g numpy_random \<Rightarrow> config \<Rightarrow> 'g model \<Rightarrow> error + 'g model" where
  "StagedActivation_step np cfg m =
     (let m1 = apply_shocks np cfg m
      in case update_market cfg m1 of
           Inl e \<Rightarrow> Inl e
         | Inr m2 \<Rightarrow>
             (case run_stages np cfg (drop 2 stage_list) m2 of
                Inl e \<Rightarrow> Inl e
              | Inr m3 \<Rightarrow> Inr (m3\<lparr>steps := steps m3 + 1, time := time m3 + 1\<rparr>)))"

text \<open>\<open>self.datacollector.collect(self)\<close> with the reporters of the constructor.\<close>

definition collect :: "'g model \<Rightarrow> error + 'g model" where
  "collect m =
     (let as = agents m;
          alive = filter (\<lambda>a. S a = 1) as;
          dead = filter (\<lambda>a. S a = 0) as
      in case py_div (real (length dead)) (real (length as)) of
           Inl e \<Rightarrow> Inl e
         | Inr failure_rate \<Rightarrow>
             let row = \<lparr> Alive_Startups = length alive,
                         Dead_Startups = length dead,
                         Failure_Rate = failure_rate,
                         Total_Funding = sum_list (map funding_received alive),
                         Avg_Valuation =
                           (if list_ex (\<lambda>a. S a = 1) as then np_mean (map V alive) else 0),
                         Avg_PMF =
                           (if list_ex (\<lambda>a. S a = 1) as then np_mean (map PMF alive) else 0),
                         Avg_Revenue =
                           (if list_ex (\<lambda>a. S a = 1) as then np_mean (map R alive) else 0),
                         Market_Size = market_size m,
                         Competition_Index = competition_index m \<rparr>
             in Inr (m\<lparr>model_vars := model_vars m @ [row],
                       agent_records := agent_records m @ [map agent_reporters as]\<rparr>))"

definition StartupModel_step ::
  "'g numpy_random \<Rightarrow> config \<Rightarrow> 'g model \<Rightarrow> error + 'g model" where
  "StartupModel_step np cfg m =
     (case collect m of
        Inl e \<Rightarrow> Inl e
      | Inr m1 \<Rightarrow> StagedActivation_step np cfg m1)"

text \<open>The loop \<open>for _ in range(steps)\<close> of \<open>run_model\<close>.\<close>

fun run_steps :: "'g numpy_random \<Rightarrow> config \<Rightarrow> nat \<Rightarrow> 'g model \<Rightarrow> error + 'g model" where
  "run_steps np cfg 0 m = Inr m"
| "run_steps np cfg (Suc n) m =
     (case StartupModel_step np cfg m of
        Inl e \<Rightarrow> Inl e
      | Inr m' \<Rightarrow> run_steps np cfg n m')"

definition run_model ::
  "'g numpy_random \<Rightarrow> config \<Rightarrow> int \<Rightarrow> 'g model \<Rightarrow> error + 'g model" where
  "run_model np cfg horizon m =
     (case run_steps np cfg (nat horizon) m of
        Inl e \<Rightarrow> Inl e
      | Inr m' \<Rightarrow> collect m')"

text \<open>Constructing a runner and running it to the horizon, as \<open>run_single_simulation\<close> does.\<close>

definition simulate ::
  "'g numpy_random \<Rightarrow> config \<Rightarrow> int \<Rightarrow> int option \<Rightarrow> int \<Rightarrow> 'g \<Rightarrow> error + 'g model" where
  "simulate np cfg num_startups seed horizon ambient =
     (case StartupModel_init np cfg num_startups seed ambient of
        Inl e \<Rightarrow> Inl e
      | Inr m \<Rightarrow> run_model np cfg horizon m)"

section \<open>Concrete inputs\<close>

text \<open>
  A generator that counts its draws and returns fixed samples, a configuration under
  which the single entity of a run dies in its second month, and the models that run
  passes through.
\<close>

definition np0 :: "nat numpy_random" where
  "np0 = \<lparr> np_seed = (\<lambda>s. nat \<bar>s\<bar>),
           np_random = (\<lambda>g. (1 / 2, Suc g)),
           np_uniform = (\<lambda>lo hi g. (lo, Suc g)),
           np_normal = (\<lambda>mu sigma g. (mu, Suc g)),
           np_beta = (\<lambda>a b g. (1 / 2, Suc g)) \<rparr>"

definition cfg_w :: config where
  "cfg_w = default_config\<lparr>B0_MIN_RATIO := 1\<rparr>"

definition row0_w :: model_row where
  "row0_w = \<lparr>Alive_Startups = 1, Dead_Startups = 0, Failure_Rate = 0,
              Total_Funding = 0, Avg_Valuation = 4000000, Avg_PMF = 1 / 2,
              Avg_Revenue = 0, Market_Size = 100000000, Competition_Index = 0\<rparr>"

definition row1_w :: model_row where
  "row1_w = \<lparr>Alive_Startups = 1, Dead_Startups = 0, Failure_Rate = 0,
              Total_Funding = 0, Avg_Valuation = 5600000, Avg_PMF = 1 / 2,
              Avg_Revenue = 0, Market_Size = 105000000, Competition_Index = 1\<rparr>"

definition row2_w :: model_row where
  "row2_w = \<lparr>Alive_Startups = 0, Dead_Startups = 1, Failure_Rate = 1,
              Total_Funding = 0, Avg_Valuation = 0, Avg_PMF = 0,
              Avg_Revenue = 0, Market_Size = 110250000, Competition_Index = 1\<rparr>"

definition m0_w :: "nat model" where
  "m0_w = \<lparr>agents =
             [\<lparr>K = 2000000, B = 2000000, R = 0, PMF = 1 / 2, V = 4000000, S = 1,
               just_funded = False, funding_received = 0, runway = Finite 1,
               death_time = None\<rparr>],
           steps = 0, time = 0, market_size = 100000000, initial_startups = 1,
           competition_index = 0, rng = 45, model_vars = [], agent_records = []\<rparr>"

definition m2_w :: "nat model" where
  "m2_w = \<lparr>agents =
             [\<lparr>K = 0, B = 1462000, R = 0, PMF = 1 / 2, V = 5600000, S = 0,
               just_funded = False, funding_received = 0, runway = Finite 0,
               death_time = Some 1\<rparr>],
           steps = 2, time = 2, market_size = 110250000, initial_startups = 1,
           competition_index = 1, rng = 50,
           model_vars = [row0_w, row1_w],
           agent_records =
             [[(2000000, 2000000, 0, 1 / 2, 4000000, 1, 0, None)],
              [(300000, 1720000, 0, 1 / 2, 5600000, 1, 0, None)]]\<rparr>"

definition m3_w :: "nat model" where
  "m3_w = \<lparr>agents =
             [\<lparr>K = 0, B = 1462000, R = 0, PMF = 1 / 2, V = 5600000, S = 0,
               just_funded = False, funding_received = 0, runway = Finite 0,
               death_time = Some 1\<rparr>],
           steps = 3, time = 3, market_size = 115762500, initial_startups = 1,
           competition_index = 0, rng = 51,
           model_vars = [row0_w, row1_w, row2_w],
           agent_records =
             [[(2000000, 2000000, 0, 1 / 2, 4000000, 1, 0, None)],
              [(300000, 1720000, 0, 1 / 2, 5600000, 1, 0, None)],
              [(0, 1462000, 0, 1 / 2, 5600000, 0, 0, Some 1)]]\<rparr>"

text \<open>
  The same run under a configuration in which a shock occurs every month.
\<close>

definition cfg_s :: config where
  "cfg_s = default_config\<lparr>B0_MIN_RATIO := 1, P_SHOCK := 1\<rparr>"

definition row1_s :: model_row where
  "row1_s = \<lparr>Alive_Startups = 1, Dead_Startups = 0, Failure_Rate = 0,
              Total_Funding = 0, Avg_Valuation = 4600000, Avg_PMF = 2 / 5,
              Avg_Revenue = 0, Market_Size = 99750000, Competition_Index = 1\<rparr>"

definition row2_s :: model_row where
  "row2_s = \<lparr>Alive_Startups = 0, Dead_Startups = 1, Failure_Rate = 1,
              Total_Funding = 0, Avg_Valuation = 0, Avg_PMF = 0,
              Avg_Revenue = 0, Market_Size = 99500625, Competition_Index = 1\<rparr>"

definition m1_s :: "nat model" where
  "m1_s = \<lparr>agents =
             [\<lparr>K = 300000, B = 1720000, R = 0, PMF = 2 / 5, V = 4600000, S = 1,
               just_funded = False, funding_received = 0, runway = Finite (3 / 17),
               death_time = None\<rparr>],
           steps = 1, time = 1, market_size = 99750000, initial_startups = 1,
           competition_index = 1, rng = 50,
           model_vars = [row0_w],
           agent_records = [[(2000000, 2000000, 0, 1 / 2, 4000000, 1, 0, None)]]\<rparr>"

definition m2_s :: "nat model" where
  "m2_s = \<lparr>agents =
             [\<lparr>K = 0, B = 1462000, R = 0, PMF = 3 / 10, V = 4600000, S = 0,
               just_funded = False, funding_received = 0, runway = Finite 0,
               death_time = Some 1\<rparr>],
           steps = 2, time = 2, market_size = 99500625, initial_startups = 1,
           competition_index = 1, rng = 54,
           model_vars = [row0_w, row1_s],
           agent_records =
             [[(2000000, 2000000, 0, 1 / 2, 4000000, 1, 0, None)],
              [(300000, 1720000, 0, 2 / 5, 4600000, 1, 0, None)]]\<rparr>"

definition m3_s :: "nat model" where
  "m3_s = \<lparr>agents =
             [\<lparr>K = 0, B = 1462000, R = 0, PMF = 3 / 10, V = 4600000, S = 0,
               just_funded = False, funding_received = 0, runway = Finite 0,
               death_time = Some 1\<rparr>],
           steps = 3, time = 3, market_size = 1588029975 / 16, initial_startups = 1,
           competition_index = 0, rng = 57,
           model_vars = [row0_w, row1_s, row2_s],
           agent_records =
             [[(2000000, 2000000, 0, 1 / 2, 4000000, 1, 0, None)],
              [(300000, 1720000, 0, 2 / 5, 4600000, 1, 0, None)],
              [(0, 1462000, 0, 3 / 10, 4600000, 0, 0, Some 1)]]\<rparr>"

text \<open>
  Single entities and the models they are scheduled in, a run whose entity dies in its
  first month, and an entity that burns nothing under a threshold of 0.
\<close>

definition a0_w :: agent where
  "a0_w = \<lparr>K = 2000000, B = 2000000, R = 0, PMF = 1 / 2, V = 4000000, S = 1,
           just_funded = False, funding_received = 0, runway = Finite 1, death_time = None\<rparr>"







definition a1_s :: agent where
  "a1_s = \<lparr>K = 300000, B = 1720000, R = 0, PMF = 2 / 5, V = 4600000, S = 1,
           just_funded = False, funding_received = 0, runway = Finite (3 / 17),
           death_time = None\<rparr>"

definition a_z_w :: agent where
  "a_z_w = \<lparr>K = 1000000, B = 0, R = 0, PMF = 1 / 2, V = 4000000, S = 1,
            just_funded = False, funding_received = 0, runway = PosInf, death_time = None\<rparr>"

definition cfg_alpha0 :: config where
  "cfg_alpha0 = default_config\<lparr>ALPHA_REVENUE_BURN := 0\<rparr>"

definition m_z_w :: "nat model" where
  "m_z_w = \<lparr>agents = [a_z_w], steps = 0, time = 0, market_size = 100000000,
            initial_startups = 1, competition_index = 1, rng = 0,
            model_vars = [], agent_records = []\<rparr>"

text \<open>
  The shocked run after the snapshot of its second month, and the final model of the
  two-month run under \<open>cfg_w\<close>.
\<close>

definition m1c_s :: "nat model" where
  "m1c_s = \<lparr>agents =
             [\<lparr>K = 300000, B = 1720000, R = 0, PMF = 2 / 5, V = 4600000, S = 1,
               just_funded = False, funding_received = 0, runway = Finite (3 / 17),
               death_time = None\<rparr>],
           steps = 1, time = 1, market_size = 99750000, initial_startups = 1,
           competition_index = 1, rng = 50,
           model_vars = [row0_w, row1_s],
           agent_records =
             [[(2000000, 2000000, 0, 1 / 2, 4000000, 1, 0, None)],
              [(300000, 1720000, 0, 2 / 5, 4600000, 1, 0, None)]]\<rparr>"


section \<open>Loops and frames\<close>

lemma for_agents_rel:
  assumes "for_agents f as g = Inr (as', g')"
    and "\<And>a g a' g'. a \<in> set as \<Longrightarrow> f a g = Inr (a', g') \<Longrightarrow> P a a'"
  shows "list_all2 P as as'"
  using assms
proof (induction as arbitrary: g as' g')
  case Nil
  then show ?case by simp
next
  case (Cons a as)
  from Cons.prems(1) obtain a1 g1 as1 g2 where
    fa: "f a g = Inr (a1, g1)" and rest: "for_agents f as g1 = Inr (as1, g2)"
    and eq: "as' = a1 # as1"
    by (auto split: sum.splits prod.splits)
  have "P a a1" using Cons.prems(2) fa by simp
  moreover have "list_all2 P as as1"
    using Cons.IH [OF rest] Cons.prems(2) by simp
  ultimately show ?case using eq by simp
qed

lemma run_stages_frame:
  assumes "run_stages np cfg sts m = Inr m'"
  shows "steps m' = steps m \<and> time m' = time m \<and> market_size m' = market_size m
       \<and> initial_startups m' = initial_startups m
       \<and> competition_index m' = competition_index m
       \<and> model_vars m' = model_vars m \<and> agent_records m' = agent_records m"
  using assms
proof (induction sts arbitrary: m)
  case Nil
  then show ?case by simp
next
  case (Cons st sts)
  from Cons.prems obtain as g where
    rest: "run_stages np cfg sts (m\<lparr>agents := as, rng := g\<rparr>) = Inr m'"
    by (auto split: sum.splits prod.splits)
  from Cons.IH [OF rest] show ?case by simp
qed

lemma run_stages_rel:
  assumes "run_stages np cfg sts m = Inr m'"
    and "\<And>mm st a g a' g'. st \<in> set sts \<Longrightarrow> steps mm = steps m
           \<Longrightarrow> call_stage np cfg mm st a g = Inr (a', g') \<Longrightarrow> P a a'"
    and "\<And>a. P a a"
    and "\<And>a b c. P a b \<Longrightarrow> P b c \<Longrightarrow> P a c"
  shows "list_all2 P (agents m) (agents m')"
  using assms(1,2)
proof (induction sts arbitrary: m)
  case Nil
  then show ?case using assms(3) by (simp add: list_all2_refl)
next
  case (Cons st sts)
  from Cons.prems(1) obtain as g where
    fa: "for_agents (call_stage np cfg m st) (agents m) (rng m) = Inr (as, g)"
    and rest: "run_stages np cfg sts (m\<lparr>agents := as, rng := g\<rparr>) = Inr m'"
    by (auto split: sum.splits prod.splits)
  have one: "list_all2 P (agents m) as"
    by (rule for_agents_rel [OF fa]) (rule Cons.prems(2) [of st m], simp_all)
  have "list_all2 P (agents (m\<lparr>agents := as, rng := g\<rparr>)) (agents m')"
    by (rule Cons.IH [OF rest]) (rule Cons.prems(2), simp_all)
  then have two: "list_all2 P as (agents m')" by simp
  show ?case
    by (rule list_all2_trans [OF _ one two]) (rule assms(4))
qed

lemma shock_agents_rel:
  assumes "\<And>a. S a = 1 \<Longrightarrow> P a (a\<lparr>PMF := np_clip (PMF a + d) 0 1\<rparr>)"
    and "\<And>a. P a a"
  shows "list_all2 P as (shock_agents d as)"
  using assms by (induction as) auto


lemmas stage_defs = stage_consumer_adoption_def stage_internal_dynamics_def
  stage_capital_update_def stage_pmf_valuation_update_def stage_funding_def
  stage_policy_def investor_logic_def revenue_burn_ratio_def py_div_def py_mod_def

lemma call_stage_dead:
  assumes "call_stage np cfg mm st a g = Inr (a', g')" and "S a = 0"
  shows "S a' = 0 \<and> PMF a' = PMF a \<and> V a' = V a \<and> B a' = B a \<and> runway a' = runway a
       \<and> K a' = K a \<and> death_time a' = death_time a \<and> just_funded a' = just_funded a
       \<and> (R a = 0 \<longrightarrow> R a' = 0)"
  using assms by (cases st) (auto simp: stage_defs)

lemma apply_shocks_frame:
  "steps (apply_shocks np cfg m) = steps m \<and> time (apply_shocks np cfg m) = time m
   \<and> initial_startups (apply_shocks np cfg m) = initial_startups m
   \<and> competition_index (apply_shocks np cfg m) = competition_index m
   \<and> model_vars (apply_shocks np cfg m) = model_vars m
   \<and> agent_records (apply_shocks np cfg m) = agent_records m"
  by (simp add: apply_shocks_def Let_def split: prod.splits)

lemma apply_shocks_rel:
  assumes "\<And>a d. S a = 1 \<Longrightarrow> P a (a\<lparr>PMF := np_clip (PMF a + d) 0 1\<rparr>)"
    and "\<And>a. P a a"
  shows "list_all2 P (agents m) (agents (apply_shocks np cfg m))"
  using shock_agents_rel [of P, OF assms] assms(2)
  by (simp add: apply_shocks_def Let_def list_all2_refl split: prod.splits)

lemma update_market_frame:
  assumes "update_market cfg m = Inr m'"
  shows "agents m' = agents m \<and> steps m' = steps m \<and> time m' = time m \<and> rng m' = rng m
       \<and> initial_startups m' = initial_startups m
       \<and> market_size m' = market_size m * (1 + GROWTH_RATE_M cfg)
       \<and> model_vars m' = model_vars m \<and> agent_records m' = agent_records m"
  using assms by (auto simp: update_market_def Let_def split: sum.splits)

lemma StagedActivation_step_rel:
  assumes "StagedActivation_step np cfg m = Inr m'"
    and "\<And>a d. S a = 1 \<Longrightarrow> P a (a\<lparr>PMF := np_clip (PMF a + d) 0 1\<rparr>)"
    and "\<And>mm st a g a' g'. st \<in> set (drop 2 stage_list) \<Longrightarrow> steps mm = steps m
           \<Longrightarrow> call_stage np cfg mm st a g = Inr (a', g') \<Longrightarrow> P a a'"
    and "\<And>a. P a a"
    and "\<And>a b c. P a b \<Longrightarrow> P b c \<Longrightarrow> P a c"
  shows "list_all2 P (agents m) (agents m')"
proof -
  from assms(1) obtain m2 m3 where
    um: "update_market cfg (apply_shocks np cfg m) = Inr m2"
    and rs: "run_stages np cfg (drop 2 stage_list) m2 = Inr m3"
    and m': "m' = m3\<lparr>steps := steps m3 + 1, time := time m3 + 1\<rparr>"
    by (auto simp: StagedActivation_step_def Let_def split: sum.splits)
  have st2: "steps m2 = steps m"
    using update_market_frame [OF um] apply_shocks_frame [of np cfg m] by simp
  have a: "list_all2 P (agents m) (agents m2)"
    using apply_shocks_rel [of P m np cfg, OF assms(2) assms(4)] update_market_frame [OF um]
    by simp
  have b: "list_all2 P (agents m2) (agents m3)"
    by (rule run_stages_rel [OF rs _ assms(4) assms(5)]) (rule assms(3), simp_all add: st2)
  have "list_all2 P (agents m) (agents m3)"
    by (rule list_all2_trans [OF _ a b]) (rule assms(5))
  then show ?thesis using m' by simp
qed

lemma collect_frame:
  assumes "collect m = Inr m'"
  shows "agents m' = agents m \<and> steps m' = steps m \<and> time m' = time m \<and> rng m' = rng m
       \<and> initial_startups m' = initial_startups m \<and> market_size m' = market_size m
       \<and> competition_index m' = competition_index m
       \<and> length (model_vars m') = Suc (length (model_vars m))
       \<and> length (agent_records m') = Suc (length (agent_records m))
       \<and> last (agent_records m') = map agent_reporters (agents m)"
  using assms by (auto simp: collect_def Let_def split: sum.splits)


lemma StartupModel_step_rel:
  assumes "StartupModel_step np cfg m = Inr m'"
    and "\<And>a d. S a = 1 \<Longrightarrow> P a (a\<lparr>PMF := np_clip (PMF a + d) 0 1\<rparr>)"
    and "\<And>mm st a g a' g'. st \<in> set (drop 2 stage_list) \<Longrightarrow> steps mm = steps m
           \<Longrightarrow> call_stage np cfg mm st a g = Inr (a', g') \<Longrightarrow> P a a'"
    and "\<And>a. P a a"
    and "\<And>a b c. P a b \<Longrightarrow> P b c \<Longrightarrow> P a c"
  shows "list_all2 P (agents m) (agents m')"
proof -
  from assms(1) obtain m1 where c: "collect m = Inr m1"
    and s: "StagedActivation_step np cfg m1 = Inr m'"
    by (auto simp: StartupModel_step_def split: sum.splits)
  have eq: "agents m1 = agents m" "steps m1 = steps m"
    using collect_frame [OF c] by simp_all
  have "list_all2 P (agents m1) (agents m')"
  proof (rule StagedActivation_step_rel [where P = P, OF s])
    fix mm st a g a' g'
    assume "st \<in> set (drop 2 stage_list)" "steps mm = steps m1"
      "call_stage np cfg mm st a g = Inr (a', g')"
    then show "P a a'" using assms(3) [of st mm a g a' g'] eq by simp
  qed (fact assms(2) assms(4) assms(5))+
  then show ?thesis using eq by simp
qed

lemma run_steps_rel:
  assumes "run_steps np cfg n m = Inr m'"
    and "\<And>a d. S a = 1 \<Longrightarrow> P a (a\<lparr>PMF := np_clip (PMF a + d) 0 1\<rparr>)"
    and "\<And>mm st a g a' g'. st \<in> set (drop 2 stage_list)
           \<Longrightarrow> call_stage np cfg mm st a g = Inr (a', g') \<Longrightarrow> P a a'"
    and "\<And>a. P a a"
    and "\<And>a b c. P a b \<Longrightarrow> P b c \<Longrightarrow> P a c"
  shows "list_all2 P (agents m) (agents m')"
  using assms(1)
proof (induction n arbitrary: m)
  case 0
  then show ?case using assms(4) by (simp add: list_all2_refl)
next
  case (Suc n)
  from Suc.prems obtain m1 where
    one: "StartupModel_step np cfg m = Inr m1" and rest: "run_steps np cfg n m1 = Inr m'"
    by (auto split: sum.splits)
  have a: "list_all2 P (agents m) (agents m1)"
  proof (rule StartupModel_step_rel [where P = P, OF one])
    fix mm st a g a' g'
    assume "st \<in> set (drop 2 stage_list)" "call_stage np cfg mm st a g = Inr (a', g')"
    then show "P a a'" by (rule assms(3))
  qed (fact assms(2) assms(4) assms(5))+
  show ?case
    by (rule list_all2_trans [OF _ a Suc.IH [OF rest]]) (rule assms(5))
qed

lemma dead_frozen_steps:
  assumes "run_steps np cfg n m = Inr m'"
  shows "list_all2 (\<lambda>a a'. S a = 0 \<longrightarrow> S a' = 0 \<and> PMF a' = PMF a \<and> V a' = V a \<and> B a' = B a
            \<and> runway a' = runway a \<and> K a' = K a \<and> death_time a' = death_time a)
          (agents m) (agents m')"
proof (rule run_steps_rel [OF assms])
  fix mm :: "'a model" and st a g a' g'
  assume "call_stage np cfg mm st a g = Inr (a', g')"
  from call_stage_dead [OF this]
  show "S a = 0 \<longrightarrow> S a' = 0 \<and> PMF a' = PMF a \<and> V a' = V a \<and> B a' = B a
            \<and> runway a' = runway a \<and> K a' = K a \<and> death_time a' = death_time a"
    by simp
qed auto

lemma create_agents_alive:
  assumes "create_agents np cfg n g = Inr (as, g')"
  shows "length as = n \<and> list_all (\<lambda>a. S a = 1) as"
  using assms
proof (induction n arbitrary: g as g')
  case 0
  then show ?case by simp
next
  case (Suc n)
  from Suc.prems obtain a g1 as1 where
    ia: "StartupAgent_init np cfg g = Inr (a, g1)"
    and rest: "create_agents np cfg n g1 = Inr (as1, g')" and eq: "as = a # as1"
    by (auto split: sum.splits prod.splits)
  have "S a = 1"
    using ia by (auto simp: StartupAgent_init_def Let_def split: prod.splits sum.splits if_splits)
  then show ?case using Suc.IH [OF rest] eq by simp
qed

lemma StartupModel_init_alive:
  assumes "StartupModel_init np cfg n seed amb = Inr m"
  shows "length (agents m) = nat n \<and> list_all (\<lambda>a. S a = 1) (agents m) \<and> steps m = 0
       \<and> model_vars m = [] \<and> agent_records m = [] \<and> initial_startups m = n"
  using assms create_agents_alive [of np cfg "nat n"]
  by (auto simp: StartupModel_init_def Let_def split: sum.splits prod.splits)

lemma call_stage_dead_capital:
  assumes "call_stage np cfg mm st a g = Inr (a', g')" and "S a = 0 \<longrightarrow> K a = 0"
  shows "S a' = 0 \<longrightarrow> K a' = 0"
  using assms by (cases st) (auto simp: stage_defs Let_def split: if_splits prod.splits sum.splits)

lemma dead_capital_steps:
  assumes "run_steps np cfg n m = Inr m'"
  shows "list_all2 (\<lambda>a a'. (S a = 0 \<longrightarrow> K a = 0) \<longrightarrow> (S a' = 0 \<longrightarrow> K a' = 0))
          (agents m) (agents m')"
proof (rule run_steps_rel [OF assms])
  fix mm :: "'a model" and st a g a' g'
  assume "call_stage np cfg mm st a g = Inr (a', g')"
  from call_stage_dead_capital [OF this]
  show "(S a = 0 \<longrightarrow> K a = 0) \<longrightarrow> (S a' = 0 \<longrightarrow> K a' = 0)" by simp
qed auto

lemma drop_stage_list:
  "drop 2 stage_list = [Stage_consumer_adoption, Stage_internal_dynamics,
     Stage_capital_update, Stage_pmf_valuation_update, Stage_funding, Stage_policy]"
  by (simp add: stage_list_def)

lemma step_dead_revenue:
  assumes "StartupModel_step np cfg m = Inr m'"
  shows "list_all2 (\<lambda>a a'. S a = 0 \<longrightarrow> S a' = 0 \<and> R a' = 0) (agents m) (agents m')"
proof -
  from assms obtain m1 m2 m3 where c: "collect m = Inr m1"
    and um: "update_market cfg (apply_shocks np cfg m1) = Inr m2"
    and rs: "run_stages np cfg (drop 2 stage_list) m2 = Inr m3"
    and m': "m' = m3\<lparr>steps := steps m3 + 1, time := time m3 + 1\<rparr>"
    by (auto simp: StartupModel_step_def StagedActivation_step_def Let_def split: sum.splits)
  let ?D = "\<lambda>a a'. S a = 0 \<longrightarrow> S a' = 0"
  let ?Z = "\<lambda>a a'. S a = 0 \<and> R a = 0 \<longrightarrow> S a' = 0 \<and> R a' = 0"
  have "list_all2 ?D (agents m1) (agents (apply_shocks np cfg m1))"
    by (rule apply_shocks_rel) auto
  then have a: "list_all2 ?D (agents m) (agents m2)"
    using collect_frame [OF c] update_market_frame [OF um] by simp
  from rs obtain as g where
    fa: "for_agents (call_stage np cfg m2 Stage_consumer_adoption) (agents m2) (rng m2)
           = Inr (as, g)"
    and rest: "run_stages np cfg [Stage_internal_dynamics, Stage_capital_update,
                 Stage_pmf_valuation_update, Stage_funding, Stage_policy]
                 (m2\<lparr>agents := as, rng := g\<rparr>) = Inr m3"
    by (auto simp: drop_stage_list split: sum.splits prod.splits)
  have b: "list_all2 (\<lambda>a a'. S a = 0 \<longrightarrow> S a' = 0 \<and> R a' = 0) (agents m2) as"
    by (rule for_agents_rel [OF fa]) (auto simp: stage_consumer_adoption_def)
  have "list_all2 ?Z (agents (m2\<lparr>agents := as, rng := g\<rparr>)) (agents m3)"
  proof (rule run_stages_rel [OF rest])
    fix mm :: "'a model" and st a g a' g'
    assume "call_stage np cfg mm st a g = Inr (a', g')"
    from call_stage_dead [OF this]
    show "S a = 0 \<and> R a = 0 \<longrightarrow> S a' = 0 \<and> R a' = 0" by simp
  qed auto
  then have c3: "list_all2 ?Z as (agents m3)" by simp
  have "list_all2 (\<lambda>a a'. S a = 0 \<longrightarrow> S a' = 0 \<and> R a' = 0) (agents m2) (agents m3)"
    by (rule list_all2_trans [OF _ b c3]) auto
  from list_all2_trans [OF _ a this, of "\<lambda>a a'. S a = 0 \<longrightarrow> S a' = 0 \<and> R a' = 0"]
  show ?thesis using m' by simp
qed

lemma dead_revenue_steps:
  assumes "run_steps np cfg n m = Inr m'"
  shows "list_all2 (\<lambda>a a'. S a = 0 \<and> R a = 0 \<longrightarrow> S a' = 0 \<and> R a' = 0) (agents m) (agents m')"
proof (rule run_steps_rel [OF assms])
  fix mm :: "'a model" and st a g a' g'
  assume "call_stage np cfg mm st a g = Inr (a', g')"
  from call_stage_dead [OF this]
  show "S a = 0 \<and> R a = 0 \<longrightarrow> S a' = 0 \<and> R a' = 0" by simp
qed auto

section \<open>Survival flag and valuation across the stages\<close>





lemma consumer_adoption_S:
  "stage_consumer_adoption np cfg M th a g = (a', g') \<Longrightarrow> S a' = S a \<and> death_time a' = death_time a"
  by (auto simp: stage_consumer_adoption_def Let_def split: if_splits prod.splits)

lemma internal_dynamics_S:
  "S (stage_internal_dynamics cfg a) = S a
   \<and> death_time (stage_internal_dynamics cfg a) = death_time a"
  by (simp add: stage_internal_dynamics_def)

lemma pmf_valuation_S:
  "stage_pmf_valuation_update np cfg a g = (a', g') \<Longrightarrow> S a' = S a \<and> death_time a' = death_time a"
  by (auto simp: stage_pmf_valuation_update_def Let_def split: if_splits prod.splits)

lemma investor_logic_S:
  "investor_logic np cfg th a g = Inr (a', g') \<Longrightarrow> S a' = S a \<and> death_time a' = death_time a"
  by (auto simp: investor_logic_def Let_def split: sum.splits if_splits prod.splits)

lemma funding_S:
  "stage_funding np cfg t th a g = Inr (a', g') \<Longrightarrow> S a' = S a \<and> death_time a' = death_time a"
  by (auto simp: stage_funding_def dest: investor_logic_S split: sum.splits if_splits)

lemma policy_S:
  "stage_policy cfg t a = Inr a' \<Longrightarrow> S a' = S a \<and> death_time a' = death_time a"
  by (auto simp: stage_policy_def Let_def split: sum.splits if_splits)

lemma map_sum_id_Inr: "map_sum id f x = Inr y \<longleftrightarrow> (\<exists>z. x = Inr z \<and> y = f z)"
  by (cases x) auto

lemma other_stages_S:
  assumes "st \<noteq> Stage_capital_update" and "call_stage np cfg m st a g = Inr (a', g')"
  shows "S a' = S a \<and> death_time a' = death_time a"
proof (cases st)
  case Stage_consumer_adoption
  then show ?thesis using assms(2) consumer_adoption_S by fastforce
next
  case Stage_internal_dynamics
  then show ?thesis using assms(2) internal_dynamics_S by auto
next
  case Stage_capital_update
  then show ?thesis using assms(1) by simp
next
  case Stage_pmf_valuation_update
  then show ?thesis using assms(2) pmf_valuation_S by fastforce
next
  case Stage_funding
  then show ?thesis using assms(2) funding_S by fastforce
next
  case Stage_policy
  then show ?thesis using assms(2) policy_S by (auto simp: map_sum_id_Inr)
qed (use assms(2) in auto)

lemma run_stages_append:
  "run_stages np cfg (xs @ ys) m =
     (case run_stages np cfg xs m of
        Inl e \<Rightarrow> Inl e
      | Inr m1 \<Rightarrow> run_stages np cfg ys m1)"
  by (induction xs arbitrary: m) (auto split: sum.splits prod.splits)

lemma call_stage_value_early:
  assumes "call_stage np cfg mm st a g = Inr (a', g')"
    and "st \<in> set [Stage_consumer_adoption, Stage_internal_dynamics, Stage_capital_update]"
  shows "V a' = V a"
  using assms
  by (auto simp: stage_consumer_adoption_def stage_internal_dynamics_def
      stage_capital_update_def py_div_def Let_def split: if_splits prod.splits sum.splits)

lemma call_stage_value_late:
  assumes "call_stage np cfg mm st a g = Inr (a', g')"
    and "st \<in> set [Stage_pmf_valuation_update, Stage_funding, Stage_policy]"
  shows "S a' = S a \<and> (S a = 0 \<longrightarrow> V a' = V a)"
proof -
  from assms(2) have "st \<noteq> Stage_capital_update" by auto
  from other_stages_S [OF this assms(1)] call_stage_dead [OF assms(1)]
  show ?thesis by simp
qed

lemma step_death_value:
  assumes "StartupModel_step np cfg m = Inr m'"
  shows "list_all2 (\<lambda>a a'. S a' = 0 \<longrightarrow> V a' = V a) (agents m) (agents m')"
proof -
  from assms obtain m1 m2 m3 where c: "collect m = Inr m1"
    and um: "update_market cfg (apply_shocks np cfg m1) = Inr m2"
    and rs: "run_stages np cfg (drop 2 stage_list) m2 = Inr m3"
    and m': "m' = m3\<lparr>steps := steps m3 + 1, time := time m3 + 1\<rparr>"
    by (auto simp: StartupModel_step_def StagedActivation_step_def Let_def split: sum.splits)
  let ?E = "\<lambda>a a'. V a' = V a"
  let ?L = "\<lambda>a a'. S a' = S a \<and> (S a = 0 \<longrightarrow> V a' = V a)"
  have "list_all2 ?E (agents m1) (agents (apply_shocks np cfg m1))"
    by (rule apply_shocks_rel) auto
  then have a: "list_all2 ?E (agents m) (agents m2)"
    using collect_frame [OF c] update_market_frame [OF um] by simp
  have split: "drop 2 stage_list
      = [Stage_consumer_adoption, Stage_internal_dynamics, Stage_capital_update]
        @ [Stage_pmf_valuation_update, Stage_funding, Stage_policy]"
    by (simp add: stage_list_def)
  from rs obtain mid where
    early: "run_stages np cfg
              [Stage_consumer_adoption, Stage_internal_dynamics, Stage_capital_update] m2
            = Inr mid"
    and late: "run_stages np cfg [Stage_pmf_valuation_update, Stage_funding, Stage_policy] mid
            = Inr m3"
    unfolding split run_stages_append by (auto split: sum.splits)
  have b: "list_all2 ?E (agents m2) (agents mid)"
  proof (rule run_stages_rel [OF early])
    fix mm :: "'a model" and st a g a' g'
    assume "st \<in> set [Stage_consumer_adoption, Stage_internal_dynamics, Stage_capital_update]"
      "call_stage np cfg mm st a g = Inr (a', g')"
    then show "V a' = V a" using call_stage_value_early [of np cfg mm st a g a' g'] by simp
  qed auto
  have d: "list_all2 ?L (agents mid) (agents m3)"
  proof (rule run_stages_rel [OF late])
    fix mm :: "'a model" and st a g a' g'
    assume "st \<in> set [Stage_pmf_valuation_update, Stage_funding, Stage_policy]"
      "call_stage np cfg mm st a g = Inr (a', g')"
    then show "S a' = S a \<and> (S a = 0 \<longrightarrow> V a' = V a)"
      using call_stage_value_late [of np cfg mm st a g a' g'] by simp
  qed auto
  have "list_all2 ?E (agents m) (agents mid)"
    by (rule list_all2_trans [OF _ a b]) simp
  from list_all2_trans [OF _ this d, of "\<lambda>a a'. S a' = 0 \<longrightarrow> V a' = V a"]
  show ?thesis using m' by simp
qed




lemma half_lt_sigmoid: "0 < z \<Longrightarrow> 1 / 2 < 1 / (1 + exp (- z :: real))"
proof -
  assume "0 < z"
  then have "exp (- z) < 1" by simp
  then have "1 + exp (- z) < 2" by simp
  moreover have "0 < 1 + exp (- z)" by (simp add: add_pos_pos)
  ultimately show ?thesis by (simp add: field_simps)
qed

section \<open>Shocks and the PMF bound\<close>

lemma shock_agents_map:
  "shock_agents d as
     = map (\<lambda>a. if S a = 1 then a\<lparr>PMF := np_clip (PMF a + d) 0 1\<rparr> else a) as"
  by (induction as) simp_all

lemma StagedActivation_step_market:
  assumes "StagedActivation_step np cfg m = Inr m'"
  shows "market_size m' = market_size (apply_shocks np cfg m) * (1 + GROWTH_RATE_M cfg)"
proof -
  from assms obtain m2 m3 where
    um: "update_market cfg (apply_shocks np cfg m) = Inr m2"
    and rs: "run_stages np cfg (drop 2 stage_list) m2 = Inr m3"
    and m': "m' = m3\<lparr>steps := steps m3 + 1, time := time m3 + 1\<rparr>"
    by (auto simp: StagedActivation_step_def Let_def split: sum.splits)
  show ?thesis using update_market_frame [OF um] run_stages_frame [OF rs] m' by simp
qed

lemma other_stages_PMF:
  assumes "st \<noteq> Stage_pmf_valuation_update" and "call_stage np cfg m st a g = Inr (a', g')"
  shows "PMF a' = PMF a"
proof (cases st)
  case Stage_consumer_adoption
  then show ?thesis using assms(2)
    by (auto simp: stage_consumer_adoption_def Let_def split: if_splits prod.splits)
next
  case Stage_internal_dynamics
  then show ?thesis using assms(2) by (auto simp: stage_internal_dynamics_def)
next
  case Stage_capital_update
  then show ?thesis using assms(2)
    by (auto simp: stage_capital_update_def py_div_def Let_def map_sum_id_Inr split: if_splits)
next
  case Stage_pmf_valuation_update
  then show ?thesis using assms(1) by simp
next
  case Stage_funding
  then show ?thesis using assms(2)
    by (auto simp: stage_funding_def investor_logic_def revenue_burn_ratio_def py_div_def
        py_mod_def Let_def split: if_splits prod.splits)
next
  case Stage_policy
  then show ?thesis using assms(2)
    by (auto simp: stage_policy_def py_mod_def Let_def map_sum_id_Inr split: if_splits)
qed (use assms(2) in auto)

lemma pmf_valuation_update_unit:
  assumes "S a \<noteq> 0"
  shows "0 \<le> PMF (fst (stage_pmf_valuation_update np cfg a g))
       \<and> PMF (fst (stage_pmf_valuation_update np cfg a g)) \<le> 1"
  using assms
  by (simp add: stage_pmf_valuation_update_def np_clip_def Let_def split: prod.splits)

lemma call_stage_pmf_unit:
  assumes "call_stage np cfg m st a g = Inr (a', g')" and "0 \<le> PMF a \<and> PMF a \<le> 1"
  shows "0 \<le> PMF a' \<and> PMF a' \<le> 1"
proof (cases "st = Stage_pmf_valuation_update")
  case False
  then show ?thesis using other_stages_PMF [OF False assms(1)] assms(2) by simp
next
  case True
  show ?thesis
  proof (cases "S a = 0")
    case True
    then show ?thesis using assms \<open>st = Stage_pmf_valuation_update\<close>
      by (auto simp: stage_pmf_valuation_update_def)
  next
    case False
    from pmf_valuation_update_unit [OF False, of np cfg g] assms(1) True
    show ?thesis by simp
  qed
qed

lemma pmf_unit_steps:
  assumes "run_steps np cfg n m = Inr m'"
  shows "list_all2 (\<lambda>a a'. 0 \<le> PMF a \<and> PMF a \<le> 1 \<longrightarrow> 0 \<le> PMF a' \<and> PMF a' \<le> 1)
          (agents m) (agents m')"
proof (rule run_steps_rel [OF assms])
  fix mm :: "'a model" and st a g a' g'
  assume "call_stage np cfg mm st a g = Inr (a', g')"
  then show "0 \<le> PMF a \<and> PMF a \<le> 1 \<longrightarrow> 0 \<le> PMF a' \<and> PMF a' \<le> 1"
    using call_stage_pmf_unit [of np cfg mm st a g a' g'] by blast
qed (auto simp: np_clip_def)

lemma create_agents_pmf_unit:
  assumes "create_agents np cfg n g = Inr (as, g')"
    and "\<And>g. 0 \<le> fst (np_beta np (PMF_ALPHA cfg) (PMF_BETA cfg) g)
            \<and> fst (np_beta np (PMF_ALPHA cfg) (PMF_BETA cfg) g) \<le> 1"
  shows "list_all (\<lambda>a. 0 \<le> PMF a \<and> PMF a \<le> 1) as"
  using assms(1)
proof (induction n arbitrary: g as g')
  case 0
  then show ?case by simp
next
  case (Suc n)
  from Suc.prems obtain a g1 as1 where
    ia: "StartupAgent_init np cfg g = Inr (a, g1)"
    and rest: "create_agents np cfg n g1 = Inr (as1, g')" and eq: "as = a # as1"
    by (auto split: sum.splits prod.splits)
  from ia obtain p g2 g3 where "np_beta np (PMF_ALPHA cfg) (PMF_BETA cfg) g2 = (p, g3)"
    and "PMF a = p"
    by (auto simp: StartupAgent_init_def Let_def split: prod.splits sum.splits if_splits)
  then have "0 \<le> PMF a \<and> PMF a \<le> 1" using assms(2) [of g2] by simp
  then show ?case using Suc.IH [OF rest] eq by simp
qed

lemma apply_shocks_pmf_unit:
  assumes "list_all (\<lambda>a. 0 \<le> PMF a \<and> PMF a \<le> 1) (agents m)"
  shows "list_all (\<lambda>a. 0 \<le> PMF a \<and> PMF a \<le> 1) (agents (apply_shocks np cfg m))"
proof -
  have "list_all2 (\<lambda>a a'. 0 \<le> PMF a \<and> PMF a \<le> 1 \<longrightarrow> 0 \<le> PMF a' \<and> PMF a' \<le> 1)
          (agents m) (agents (apply_shocks np cfg m))"
    by (rule apply_shocks_rel) (auto simp: np_clip_def)
  then show ?thesis using assms
    by (auto simp: list_all2_conv_all_nth list_all_length)
qed

section \<open>The data collector tables and totality of a run\<close>














section \<open>Evaluation of the concrete run\<close>

lemmas eval_defs = np0_def cfg_w_def default_config_def StartupModel_init_def
  StartupAgent_init_def stage_defs apply_shocks_def update_market_def
  StagedActivation_step_def StartupModel_step_def collect_def run_model_def simulate_def
  stage_list_def np_clip_def np_mean_def agent_reporters_def Let_def

lemma init_w: "StartupModel_init np0 cfg_w 1 (Some 42) 0 = Inr m0_w"
  by (simp add: eval_defs m0_w_def)

lemma steps2_w: "run_steps np0 cfg_w 2 m0_w = Inr m2_w"
  by (simp add: eval_defs m0_w_def m2_w_def row0_w_def row1_w_def numeral_2_eq_2)

lemma steps1_w: "run_steps np0 cfg_w (Suc 0) m2_w = Inr m3_w"
  by (simp add: eval_defs m2_w_def m3_w_def row0_w_def row1_w_def row2_w_def)

lemmas eval_defs_s = eval_defs cfg_s_def

lemma init_s: "StartupModel_init np0 cfg_s 1 (Some 42) 0 = Inr m0_w"
  by (simp add: eval_defs_s m0_w_def)

lemma step1_s: "StartupModel_step np0 cfg_s m0_w = Inr m1_s"
  by (simp add: eval_defs_s m0_w_def m1_s_def row0_w_def)

lemma step2_s: "StartupModel_step np0 cfg_s m1_s = Inr m2_s"
  by (simp add: eval_defs_s m1_s_def m2_s_def row0_w_def row1_s_def)

lemma step3_s: "StartupModel_step np0 cfg_s m2_s = Inr m3_s"
  by (simp add: eval_defs_s m2_s_def m3_s_def row0_w_def row1_s_def row2_s_def)

lemma steps1_s: "run_steps np0 cfg_s (Suc 0) m2_s = Inr m3_s"
  by (simp add: step3_s)

lemma steps2_s: "run_steps np0 cfg_s 2 m0_w = Inr m2_s"
  by (simp add: numeral_2_eq_2 step1_s step2_s)






lemma policy_a0: "call_stage np0 cfg_w m0_w Stage_policy a0_w 0 = Inr (a0_w\<lparr>B := 2020000\<rparr>, 0)"
  by (simp add: stage_policy_def py_mod_def a0_w_def m0_w_def cfg_w_def default_config_def Let_def)

lemma funding_alpha0: "stage_funding np0 cfg_alpha0 0 1 a_z_w 0
     = Inr (a_z_w\<lparr>funding_received := 1000000, just_funded := True\<rparr>, 1)"
  using half_lt_sigmoid [of "1 / 2"]
  by (simp add: stage_funding_def investor_logic_def revenue_burn_ratio_def py_mod_def py_div_def
      cfg_alpha0_def default_config_def np0_def a_z_w_def Let_def)

lemma funding_z: "call_stage np0 cfg_alpha0 m_z_w Stage_funding a_z_w 0
     = Inr (a_z_w\<lparr>funding_received := 1000000, just_funded := True\<rparr>, 1)"
  using funding_alpha0 by (simp add: m_z_w_def)



lemma sched2_s: "StagedActivation_step np0 cfg_s m1c_s = Inr m2_s"
  by (simp add: eval_defs_s m1c_s_def m2_s_def row0_w_def row1_s_def)


lemma shock2_s: "apply_shocks np0 cfg_s m2_s = m2_s\<lparr>market_size := 99500625 * (19 / 20), rng := 57\<rparr>"
  by (simp add: eval_defs_s m2_s_def)

lemma pmf_update_a1: "call_stage np0 cfg_s m1c_s Stage_pmf_valuation_update a1_s 0 = Inr (a1_s, 1)"
  by (simp add: stage_pmf_valuation_update_def np_clip_def np0_def cfg_s_def default_config_def
      a1_s_def Let_def)

lemma unseeded_run_reads_ambient:
  "simulate np0 cfg_w 1 None 0 0 \<noteq> simulate np0 cfg_w 1 None 0 1"
  by (simp add: eval_defs)

section \<open>Claims\<close>

text \<open>
  C1.  Once an entity is dead after some month of a run, in every later month it is
  still dead, its revenue is 0 and its capital is 0.
\<close>

theorem monotonic_death:
  assumes "StartupModel_init np cfg n seed amb = Inr m0"
    and "run_steps np cfg t m0 = Inr m"
    and "run_steps np cfg (Suc k) m = Inr m'"
    and "i < length (agents m)"
    and "S (agents m ! i) = 0"
  shows "S (agents m' ! i) = 0 \<and> R (agents m' ! i) = 0 \<and> K (agents m' ! i) = 0"
proof -
  from assms(3) obtain m1 where
    one: "StartupModel_step np cfg m = Inr m1" and rest: "run_steps np cfg k m1 = Inr m'"
    by (auto split: sum.splits)
  have len0: "length (agents m0) = length (agents m)"
    using dead_capital_steps [OF assms(2)] by (simp add: list_all2_lengthD)
  have "S (agents m0 ! i) = 1"
    using StartupModel_init_alive [OF assms(1)] assms(4) len0 by (simp add: list_all_length)
  then have k0: "K (agents m ! i) = 0"
    using dead_capital_steps [OF assms(2)] assms(4,5) by (simp add: list_all2_conv_all_nth)
  have len1: "length (agents m1) = length (agents m)"
    using step_dead_revenue [OF one] by (simp add: list_all2_lengthD)
  have s1: "S (agents m1 ! i) = 0 \<and> R (agents m1 ! i) = 0"
    using step_dead_revenue [OF one] assms(4,5) by (simp add: list_all2_conv_all_nth)
  have "S (agents m' ! i) = 0 \<and> R (agents m' ! i) = 0"
    using dead_revenue_steps [OF rest] s1 assms(4) len1 by (simp add: list_all2_conv_all_nth)
  moreover have "K (agents m' ! i) = K (agents m ! i)"
    using dead_frozen_steps [OF assms(3)] assms(4,5) by (simp add: list_all2_conv_all_nth)
  ultimately show ?thesis using k0 by simp
qed

theorem monotonic_death_witness:
  "StartupModel_init np0 cfg_w 1 (Some 42) 0 = Inr m0_w
   \<and> run_steps np0 cfg_w 2 m0_w = Inr m2_w
   \<and> run_steps np0 cfg_w (Suc 0) m2_w = Inr m3_w
   \<and> 0 < length (agents m2_w) \<and> S (agents m2_w ! 0) = 0
   \<and> S (agents m3_w ! 0) = 0 \<and> R (agents m3_w ! 0) = 0 \<and> K (agents m3_w ! 0) = 0"
proof -
  have l: "0 < length (agents m2_w)" and d: "S (agents m2_w ! 0) = 0"
    by (simp_all add: m2_w_def)
  from monotonic_death [OF init_w steps2_w steps1_w l d] init_w steps2_w steps1_w l d
  show ?thesis by blast
qed

text \<open>
  C2.  Provided the Beta sampler of the library returns values in the unit interval, the
  PMF of every entity lies in [0, 1] after construction and after every month of a
  run, and also after the shock stage applied to such a state.  Every stage call maps
  an entity with PMF in [0, 1] to one with PMF in [0, 1], and the PMF-update stage of
  a live entity ends with a PMF in [0, 1] whatever it started from.
\<close>

theorem pmf_bounded:
  assumes "\<And>g. 0 \<le> fst (np_beta np (PMF_ALPHA cfg) (PMF_BETA cfg) g)
            \<and> fst (np_beta np (PMF_ALPHA cfg) (PMF_BETA cfg) g) \<le> 1"
  shows "(StartupModel_init np cfg n seed amb = Inr m0 \<longrightarrow> run_steps np cfg t m0 = Inr m
            \<longrightarrow> (\<forall>a \<in> set (agents m). 0 \<le> PMF a \<and> PMF a \<le> 1)
              \<and> (\<forall>a \<in> set (agents (apply_shocks np cfg m)). 0 \<le> PMF a \<and> PMF a \<le> 1))
       \<and> (0 \<le> PMF a \<and> PMF a \<le> 1 \<longrightarrow> call_stage np cfg mm st a g = Inr (a', g')
            \<longrightarrow> 0 \<le> PMF a' \<and> PMF a' \<le> 1)
       \<and> (S a \<noteq> 0 \<longrightarrow> 0 \<le> PMF (fst (stage_pmf_valuation_update np cfg a g))
                       \<and> PMF (fst (stage_pmf_valuation_update np cfg a g)) \<le> 1)"
proof -
  have run: "(\<forall>a \<in> set (agents m). 0 \<le> PMF a \<and> PMF a \<le> 1)
      \<and> (\<forall>a \<in> set (agents (apply_shocks np cfg m)). 0 \<le> PMF a \<and> PMF a \<le> 1)"
    if init: "StartupModel_init np cfg n seed amb = Inr m0"
      and run: "run_steps np cfg t m0 = Inr m"
  proof -
    from init obtain g0 g1 where "create_agents np cfg (nat n) g0 = Inr (agents m0, g1)"
      by (auto simp: StartupModel_init_def Let_def split: sum.splits prod.splits)
    from create_agents_pmf_unit [OF this assms]
    have "list_all (\<lambda>a. 0 \<le> PMF a \<and> PMF a \<le> 1) (agents m0)" .
    with pmf_unit_steps [OF run]
    have ok: "list_all (\<lambda>a. 0 \<le> PMF a \<and> PMF a \<le> 1) (agents m)"
      by (auto simp: list_all2_conv_all_nth list_all_length)
    from ok apply_shocks_pmf_unit [OF ok, of np cfg] show ?thesis
      by (simp add: list_all_iff)
  qed
  have stage: "0 \<le> PMF a' \<and> PMF a' \<le> 1"
    if "0 \<le> PMF a \<and> PMF a \<le> 1" "call_stage np cfg mm st a g = Inr (a', g')"
    using call_stage_pmf_unit [OF that(2) that(1)] .
  have upd: "0 \<le> PMF (fst (stage_pmf_valuation_update np cfg a g))
       \<and> PMF (fst (stage_pmf_valuation_update np cfg a g)) \<le> 1" if "S a \<noteq> 0"
    using that by (rule pmf_valuation_update_unit)
  from run stage upd show ?thesis by blast
qed

theorem pmf_bounded_witness:
  "0 \<le> fst (np_beta np0 (PMF_ALPHA cfg_s) (PMF_BETA cfg_s) 44)
   \<and> fst (np_beta np0 (PMF_ALPHA cfg_s) (PMF_BETA cfg_s) 44) \<le> 1
   \<and> StartupModel_init np0 cfg_s 1 (Some 42) 0 = Inr m0_w
   \<and> run_steps np0 cfg_s 2 m0_w = Inr m2_s
   \<and> 0 \<le> PMF (agents m2_s ! 0) \<and> PMF (agents m2_s ! 0) \<le> 1
   \<and> 0 \<le> PMF (agents (apply_shocks np0 cfg_s m2_s) ! 0)
   \<and> PMF (agents (apply_shocks np0 cfg_s m2_s) ! 0) \<le> 1
   \<and> 0 \<le> PMF a1_s \<and> PMF a1_s \<le> 1
   \<and> call_stage np0 cfg_s m1c_s Stage_pmf_valuation_update a1_s 0 = Inr (a1_s, 1)
   \<and> S a1_s \<noteq> 0
   \<and> 0 \<le> PMF (fst (stage_pmf_valuation_update np0 cfg_s a1_s 0))
   \<and> PMF (fst (stage_pmf_valuation_update np0 cfg_s a1_s 0)) \<le> 1"
proof -
  have beta: "0 \<le> fst (np_beta np0 (PMF_ALPHA cfg_s) (PMF_BETA cfg_s) g)
      \<and> fst (np_beta np0 (PMF_ALPHA cfg_s) (PMF_BETA cfg_s) g) \<le> 1" for g
    by (simp add: np0_def)
  note T = pmf_bounded [where np = np0 and cfg = cfg_s and n = 1 and seed = "Some 42"
      and amb = 0 and ?m0.0 = m0_w and t = 2 and m = m2_s and a = a1_s and mm = m1c_s
      and st = Stage_pmf_valuation_update and g = 0 and a' = a1_s and g' = 1, OF beta]
  have i: "agents m2_s ! 0 \<in> set (agents m2_s)"
    "agents (apply_shocks np0 cfg_s m2_s) ! 0 \<in> set (agents (apply_shocks np0 cfg_s m2_s))"
    by (simp_all add: shock2_s) (simp_all add: m2_s_def)
  have a: "0 \<le> PMF a1_s \<and> PMF a1_s \<le> 1" "S a1_s \<noteq> 0" by (simp_all add: a1_s_def)
  have c1: "0 \<le> PMF (agents m2_s ! 0) \<and> PMF (agents m2_s ! 0) \<le> 1"
    using T init_s steps2_s i(1) by blast
  have c2: "0 \<le> PMF (agents (apply_shocks np0 cfg_s m2_s) ! 0)
      \<and> PMF (agents (apply_shocks np0 cfg_s m2_s) ! 0) \<le> 1"
    using T init_s steps2_s i(2) by blast
  have c3: "0 \<le> PMF (fst (stage_pmf_valuation_update np0 cfg_s a1_s 0))
      \<and> PMF (fst (stage_pmf_valuation_update np0 cfg_s a1_s 0)) \<le> 1"
    using T a(2) by blast
  from beta [of 44] init_s steps2_s c1 c2 c3 a pmf_update_a1 show ?thesis by blast
qed











text \<open>
  C7.  In a month whose step counter is not a multiple of the funding interval the
  funding stage only sets the stored funding to 0, without a draw; in a month whose
  step counter is not a multiple of the policy interval the policy stage changes
  nothing.  Conversely, the funding stage leaves a nonzero funding, and the policy
  stage changes the burn rate, only when the step counter is a multiple of the
  respective interval.
\<close>

theorem funding_policy_cadence:
  "(FUNDING_INTERVAL cfg \<noteq> 0 \<longrightarrow> steps mm mod FUNDING_INTERVAL cfg \<noteq> 0
      \<longrightarrow> call_stage np cfg mm Stage_funding a g = Inr (a\<lparr>funding_received := 0\<rparr>, g))
   \<and> (POLICY_INTERVAL cfg \<noteq> 0 \<longrightarrow> steps mm mod POLICY_INTERVAL cfg \<noteq> 0
      \<longrightarrow> call_stage np cfg mm Stage_policy a g = Inr (a, g))
   \<and> (call_stage np cfg mm Stage_funding a g = Inr (a', g') \<longrightarrow> funding_received a' \<noteq> 0
      \<longrightarrow> FUNDING_INTERVAL cfg \<noteq> 0 \<and> steps mm mod FUNDING_INTERVAL cfg = 0)
   \<and> (call_stage np cfg mm Stage_policy a g = Inr (a'', g'') \<longrightarrow> B a'' \<noteq> B a
      \<longrightarrow> POLICY_INTERVAL cfg \<noteq> 0 \<and> steps mm mod POLICY_INTERVAL cfg = 0)"
  by (auto simp: stage_funding_def stage_policy_def py_mod_def Let_def map_sum_id_Inr
      split: if_splits)

theorem funding_policy_cadence_witness:
  "FUNDING_INTERVAL cfg_s \<noteq> 0 \<and> steps m1_s mod FUNDING_INTERVAL cfg_s \<noteq> 0
   \<and> call_stage np0 cfg_s m1_s Stage_funding a1_s 0 = Inr (a1_s\<lparr>funding_received := 0\<rparr>, 0)
   \<and> POLICY_INTERVAL cfg_s \<noteq> 0 \<and> steps m1_s mod POLICY_INTERVAL cfg_s \<noteq> 0
   \<and> call_stage np0 cfg_s m1_s Stage_policy a1_s 0 = Inr (a1_s, 0)
   \<and> call_stage np0 cfg_alpha0 m_z_w Stage_funding a_z_w 0
       = Inr (a_z_w\<lparr>funding_received := 1000000, just_funded := True\<rparr>, 1)
   \<and> funding_received (a_z_w\<lparr>funding_received := 1000000, just_funded := True\<rparr>) \<noteq> 0
   \<and> FUNDING_INTERVAL cfg_alpha0 \<noteq> 0 \<and> steps m_z_w mod FUNDING_INTERVAL cfg_alpha0 = 0
   \<and> call_stage np0 cfg_w m0_w Stage_policy a0_w 0 = Inr (a0_w\<lparr>B := 2020000\<rparr>, 0)
   \<and> B (a0_w\<lparr>B := 2020000\<rparr>) \<noteq> B a0_w
   \<and> POLICY_INTERVAL cfg_w \<noteq> 0 \<and> steps m0_w mod POLICY_INTERVAL cfg_w = 0"
proof -
  have i: "FUNDING_INTERVAL cfg_s \<noteq> 0" "steps m1_s mod FUNDING_INTERVAL cfg_s \<noteq> 0"
    "POLICY_INTERVAL cfg_s \<noteq> 0" "steps m1_s mod POLICY_INTERVAL cfg_s \<noteq> 0"
    by (simp_all add: cfg_s_def default_config_def m1_s_def)
  have f: "funding_received (a_z_w\<lparr>funding_received := 1000000, just_funded := True\<rparr>) \<noteq> 0"
    by simp
  have b: "B (a0_w\<lparr>B := 2020000\<rparr>) \<noteq> B a0_w" by (simp add: a0_w_def)
  note off = funding_policy_cadence [of cfg_s m1_s np0 a1_s 0 a1_s 0 a1_s 0]
  note onf = funding_policy_cadence [of cfg_alpha0 m_z_w np0 a_z_w 0
      "a_z_w\<lparr>funding_received := 1000000, just_funded := True\<rparr>" 1 a_z_w 0]
  note onp = funding_policy_cadence [of cfg_w m0_w np0 a0_w 0 a0_w 0 "a0_w\<lparr>B := 2020000\<rparr>" 0]
  have c1: "call_stage np0 cfg_s m1_s Stage_funding a1_s 0 = Inr (a1_s\<lparr>funding_received := 0\<rparr>, 0)"
    using off i by blast
  have c2: "call_stage np0 cfg_s m1_s Stage_policy a1_s 0 = Inr (a1_s, 0)"
    using off i by blast
  have c3: "FUNDING_INTERVAL cfg_alpha0 \<noteq> 0 \<and> steps m_z_w mod FUNDING_INTERVAL cfg_alpha0 = 0"
    using onf funding_z f by blast
  have c4: "POLICY_INTERVAL cfg_w \<noteq> 0 \<and> steps m0_w mod POLICY_INTERVAL cfg_w = 0"
    using onp policy_a0 b by blast
  from i f b c1 c2 c3 c4 funding_z policy_a0 show ?thesis by blast
qed

text \<open>
  C8.  The shock stage draws one number to decide whether a shock occurs.  Without a
  shock nothing but the generator state changes.  With a shock it draws one PMF
  change and one market change, in this order and not per entity; every entity with
  S = 1 gets the same PMF change, clipped into [0, 1], every other entity is
  untouched, and the market size becomes max 0 (M * (1 + change)).  The market growth
  of the month is applied to the market size that the shock stage leaves.
\<close>

theorem shock_single_draw:
  assumes "np_random np (rng m) = (u, g1)"
    and "np_uniform np (DELTA_PMF_SHOCK_MIN cfg) (DELTA_PMF_SHOCK_MAX cfg) g1 = (delta_pmf, g2)"
    and "np_uniform np (DELTA_M_SHOCK_MIN cfg) (DELTA_M_SHOCK_MAX cfg) g2 = (delta_m, g3)"
  shows "(\<not> u < P_SHOCK cfg \<longrightarrow> apply_shocks np cfg m = m\<lparr>rng := g1\<rparr>)
       \<and> (u < P_SHOCK cfg \<longrightarrow>
            apply_shocks np cfg m
              = m\<lparr>agents :=
                    map (\<lambda>a. if S a = 1 then a\<lparr>PMF := min (max (PMF a + delta_pmf) 0) 1\<rparr>
                              else a) (agents m),
                  market_size := max 0 (market_size m * (1 + delta_m)),
                  rng := g3\<rparr>)
       \<and> (StagedActivation_step np cfg m = Inr m'
            \<longrightarrow> market_size m'
                = market_size (apply_shocks np cfg m) * (1 + GROWTH_RATE_M cfg))"
proof (intro conjI impI)
  assume "\<not> u < P_SHOCK cfg"
  then show "apply_shocks np cfg m = m\<lparr>rng := g1\<rparr>"
    using assms(1) by (simp add: apply_shocks_def)
next
  assume "u < P_SHOCK cfg"
  then show "apply_shocks np cfg m
              = m\<lparr>agents :=
                    map (\<lambda>a. if S a = 1 then a\<lparr>PMF := min (max (PMF a + delta_pmf) 0) 1\<rparr>
                              else a) (agents m),
                  market_size := max 0 (market_size m * (1 + delta_m)),
                  rng := g3\<rparr>"
    using assms by (simp add: apply_shocks_def Let_def shock_agents_map np_clip_def)
next
  assume "StagedActivation_step np cfg m = Inr m'"
  then show "market_size m' = market_size (apply_shocks np cfg m) * (1 + GROWTH_RATE_M cfg)"
    by (rule StagedActivation_step_market)
qed

theorem shock_single_draw_witness:
  "np_random np0 (rng m1c_s) = (1 / 2, 51)
   \<and> np_uniform np0 (DELTA_PMF_SHOCK_MIN cfg_s) (DELTA_PMF_SHOCK_MAX cfg_s) 51 = (- (1 / 10), 52)
   \<and> np_uniform np0 (DELTA_M_SHOCK_MIN cfg_s) (DELTA_M_SHOCK_MAX cfg_s) 52 = (- (1 / 20), 53)
   \<and> 1 / 2 < P_SHOCK cfg_s
   \<and> apply_shocks np0 cfg_s m1c_s
       = m1c_s\<lparr>agents := [a1_s\<lparr>PMF := 3 / 10\<rparr>], market_size := 94762500, rng := 53\<rparr>
   \<and> StagedActivation_step np0 cfg_s m1c_s = Inr m2_s
   \<and> market_size m2_s
       = market_size (apply_shocks np0 cfg_s m1c_s) * (1 + GROWTH_RATE_M cfg_s)
   \<and> market_size m2_s = 99500625
   \<and> np_random np0 (rng m2_s) = (1 / 2, 55)
   \<and> np_uniform np0 (DELTA_PMF_SHOCK_MIN cfg_s) (DELTA_PMF_SHOCK_MAX cfg_s) 55 = (- (1 / 10), 56)
   \<and> np_uniform np0 (DELTA_M_SHOCK_MIN cfg_s) (DELTA_M_SHOCK_MAX cfg_s) 56 = (- (1 / 20), 57)
   \<and> apply_shocks np0 cfg_s m2_s
       = m2_s\<lparr>market_size := 99500625 * (19 / 20), rng := 57\<rparr>
   \<and> np_random np0 (rng m0_w) = (1 / 2, 46) \<and> \<not> 1 / 2 < P_SHOCK cfg_w
   \<and> apply_shocks np0 cfg_w m0_w = m0_w\<lparr>rng := 46\<rparr>"
proof -
  have d1: "np_random np0 (rng m1c_s) = (1 / 2, 51)"
    "np_uniform np0 (DELTA_PMF_SHOCK_MIN cfg_s) (DELTA_PMF_SHOCK_MAX cfg_s) 51 = (- (1 / 10), 52)"
    "np_uniform np0 (DELTA_M_SHOCK_MIN cfg_s) (DELTA_M_SHOCK_MAX cfg_s) 52 = (- (1 / 20), 53)"
    by (simp_all add: np0_def cfg_s_def default_config_def m1c_s_def)
  have d2: "np_random np0 (rng m2_s) = (1 / 2, 55)"
    "np_uniform np0 (DELTA_PMF_SHOCK_MIN cfg_s) (DELTA_PMF_SHOCK_MAX cfg_s) 55 = (- (1 / 10), 56)"
    "np_uniform np0 (DELTA_M_SHOCK_MIN cfg_s) (DELTA_M_SHOCK_MAX cfg_s) 56 = (- (1 / 20), 57)"
    by (simp_all add: np0_def cfg_s_def default_config_def m2_s_def)
  have d0: "np_random np0 (rng m0_w) = (1 / 2, 46)"
    "np_uniform np0 (DELTA_PMF_SHOCK_MIN cfg_w) (DELTA_PMF_SHOCK_MAX cfg_w) 46 = (- (1 / 10), 47)"
    "np_uniform np0 (DELTA_M_SHOCK_MIN cfg_w) (DELTA_M_SHOCK_MAX cfg_w) 47 = (- (1 / 20), 48)"
    by (simp_all add: np0_def cfg_w_def default_config_def m0_w_def)
  have p: "1 / 2 < P_SHOCK cfg_s" "\<not> 1 / 2 < P_SHOCK cfg_w"
    by (simp_all add: cfg_s_def cfg_w_def default_config_def)
  have s1: "apply_shocks np0 cfg_s m1c_s
      = m1c_s\<lparr>agents :=
            map (\<lambda>a. if S a = 1 then a\<lparr>PMF := min (max (PMF a + - (1 / 10)) 0) 1\<rparr> else a)
              (agents m1c_s),
          market_size := max 0 (market_size m1c_s * (1 + - (1 / 20))), rng := 53\<rparr>"
    using shock_single_draw [OF d1, of m2_s] p(1) by blast
  have g1: "market_size m2_s
      = market_size (apply_shocks np0 cfg_s m1c_s) * (1 + GROWTH_RATE_M cfg_s)"
    using shock_single_draw [OF d1, of m2_s] sched2_s by blast
  have s2: "apply_shocks np0 cfg_s m2_s
      = m2_s\<lparr>agents :=
            map (\<lambda>a. if S a = 1 then a\<lparr>PMF := min (max (PMF a + - (1 / 10)) 0) 1\<rparr> else a)
              (agents m2_s),
          market_size := max 0 (market_size m2_s * (1 + - (1 / 20))), rng := 57\<rparr>"
    using shock_single_draw [OF d2, of m3_s] p(1) by blast
  have s0: "apply_shocks np0 cfg_w m0_w = m0_w\<lparr>rng := 46\<rparr>"
    using shock_single_draw [OF d0, of m0_w] p(2) by blast
  have e1: "apply_shocks np0 cfg_s m1c_s
       = m1c_s\<lparr>agents := [a1_s\<lparr>PMF := 3 / 10\<rparr>], market_size := 94762500, rng := 53\<rparr>"
    unfolding s1 by (simp add: m1c_s_def a1_s_def)
  have e2: "apply_shocks np0 cfg_s m2_s = m2_s\<lparr>market_size := 99500625 * (19 / 20), rng := 57\<rparr>"
    unfolding s2 by (simp add: m2_s_def)
  have e3: "market_size m2_s = 99500625" by (simp add: m2_s_def)
  from d1 d2 d0(1) p e1 e2 e3 g1 s0 sched2_s show ?thesis by blast
qed



text \<open>
  C10.  Once an entity is dead, its PMF, valuation, burn rate and runway are the same
  after any number of further months.  The valuation is not zeroed by the death
  either: it is the valuation the entity had at the start of the month that left it
  dead, which is the last value computed while it was alive.
\<close>

theorem dead_entity_frozen:
  assumes "run_steps np cfg n m = Inr m'"
    and "i < length (agents m)"
    and "S (agents m ! i) = 0"
  shows "i < length (agents m') \<and> S (agents m' ! i) = 0
       \<and> PMF (agents m' ! i) = PMF (agents m ! i)
       \<and> V (agents m' ! i) = V (agents m ! i)
       \<and> B (agents m' ! i) = B (agents m ! i)
       \<and> runway (agents m' ! i) = runway (agents m ! i)
       \<and> (StartupModel_step np cfg mp = Inr m \<longrightarrow> V (agents m' ! i) = V (agents mp ! i))"
proof -
  have frozen: "i < length (agents m') \<and> S (agents m' ! i) = 0
       \<and> PMF (agents m' ! i) = PMF (agents m ! i)
       \<and> V (agents m' ! i) = V (agents m ! i)
       \<and> B (agents m' ! i) = B (agents m ! i)
       \<and> runway (agents m' ! i) = runway (agents m ! i)"
    using dead_frozen_steps [OF assms(1)] assms(2,3)
    by (auto simp: list_all2_conv_all_nth)
  have "V (agents m ! i) = V (agents mp ! i)" if "StartupModel_step np cfg mp = Inr m"
    using step_death_value [OF that] assms(2,3) by (simp add: list_all2_conv_all_nth)
  with frozen show ?thesis by simp
qed

theorem dead_entity_frozen_witness:
  "StartupModel_step np0 cfg_s m1_s = Inr m2_s
   \<and> S (agents m1_s ! 0) = 1 \<and> V (agents m1_s ! 0) = 4600000
   \<and> run_steps np0 cfg_s (Suc 0) m2_s = Inr m3_s
   \<and> 0 < length (agents m2_s) \<and> S (agents m2_s ! 0) = 0
   \<and> 0 < length (agents m3_s) \<and> S (agents m3_s ! 0) = 0
   \<and> PMF (agents m3_s ! 0) = PMF (agents m2_s ! 0)
   \<and> V (agents m3_s ! 0) = V (agents m2_s ! 0)
   \<and> B (agents m3_s ! 0) = B (agents m2_s ! 0)
   \<and> runway (agents m3_s ! 0) = runway (agents m2_s ! 0)
   \<and> V (agents m3_s ! 0) = V (agents m1_s ! 0)"
proof -
  have l: "0 < length (agents m2_s)" and d: "S (agents m2_s ! 0) = 0"
    by (simp_all add: m2_s_def)
  have a: "S (agents m1_s ! 0) = 1" "V (agents m1_s ! 0) = 4600000"
    by (simp_all add: m1_s_def)
  from dead_entity_frozen [OF steps1_s l d, of m1_s] step2_s steps1_s l d a
  show ?thesis by blast
qed

end
